theory Spec2Isabelle
  imports Complex_Main
begin

section \<open>Values of the host language\<close>

text \<open>
  A string of the source is a sequence of UTF-16 code units; a code unit is modelled as a
  natural number, so that the characters the regular expression and \<open>trim\<close> treat
  specially (line terminators, the Unicode spaces) are all representable. \<open>js\<close> embeds an
  ASCII literal.
\<close>

type_synonym jschar = nat
type_synonym jsstring = "jschar list"

definition js :: "string \<Rightarrow> jsstring" where
  "js s = map of_char s"

subsection \<open>Numbers\<close>

text \<open>
  A number of the source is an IEEE 754 binary64 value: \<open>NaN\<close>, an infinity, or a finite
  value, written here as the rational it denotes (the two zeros are not told apart; no
  operation of the source distinguishes them). Arithmetic computes the exact rational
  result and rounds it to the nearest binary64 value, ties to the even significand.
\<close>

datatype jsnum = NaN | NegInfinity | Finite rat | Infinity

definition pow2 :: "int \<Rightarrow> rat" where
  "pow2 e = (if 0 \<le> e then 2 ^ nat e else 1 / 2 ^ nat (- e))"

text \<open>\<open>exponent a\<close> is the integer \<open>e\<close> with \<open>2 ^ e \<le> a < 2 ^ (e + 1)\<close>, for \<open>a > 0\<close>.\<close>

function log2_up :: "rat \<Rightarrow> int" where
  "log2_up a = (if 2 \<le> a then log2_up (a / 2) + 1 else 0)"
  by pat_completeness auto
termination
proof (relation "measure (\<lambda>a. nat \<lfloor>a\<rfloor>)")
  show "wf (measure (\<lambda>a::rat. nat \<lfloor>a\<rfloor>))" by (rule wf_measure)
next
  fix a :: rat
  assume a: "2 \<le> a"
  then have "a / 2 \<le> a - 1" by linarith
  then have "\<lfloor>a / 2\<rfloor> \<le> \<lfloor>a - 1\<rfloor>" by (rule floor_mono)
  also have "\<lfloor>a - 1\<rfloor> = \<lfloor>a\<rfloor> - 1" by (rule floor_diff_one)
  finally have lt: "\<lfloor>a / 2\<rfloor> < \<lfloor>a\<rfloor>" by linarith
  from a have "(2::int) \<le> \<lfloor>a\<rfloor>" by (simp only: le_floor_iff of_int_numeral)
  with lt have "nat \<lfloor>a / 2\<rfloor> < nat \<lfloor>a\<rfloor>" by linarith
  then show "(a / 2, a) \<in> measure (\<lambda>a. nat \<lfloor>a\<rfloor>)"
    by (simp only: in_measure)
qed

function log2_down :: "rat \<Rightarrow> int" where
  "log2_down a = (if 0 < a \<and> a < 1 then log2_down (a * 2) - 1 else 0)"
  by pat_completeness auto
termination
proof (relation "measure (\<lambda>a. nat \<lfloor>2 / a\<rfloor>)")
  show "wf (measure (\<lambda>a::rat. nat \<lfloor>2 / a\<rfloor>))" by (rule wf_measure)
next
  fix a :: rat
  assume a: "0 < a \<and> a < 1"
  define b where "b = 2 / a"
  from a have "2 * a \<le> 2" by linarith
  with a have b: "2 \<le> b" unfolding b_def by (simp only: pos_le_divide_eq)
  then have "b / 2 \<le> b - 1" by linarith
  then have "\<lfloor>b / 2\<rfloor> \<le> \<lfloor>b - 1\<rfloor>" by (rule floor_mono)
  also have "\<lfloor>b - 1\<rfloor> = \<lfloor>b\<rfloor> - 1" by (rule floor_diff_one)
  finally have lt: "\<lfloor>b / 2\<rfloor> < \<lfloor>b\<rfloor>" by linarith
  from b have "(2::int) \<le> \<lfloor>b\<rfloor>" by (simp only: le_floor_iff of_int_numeral)
  with lt have "nat \<lfloor>b / 2\<rfloor> < nat \<lfloor>b\<rfloor>" by linarith
  moreover have "2 / (a * 2) = b / 2" unfolding b_def by (simp only: divide_divide_eq_left)
  ultimately show "(a * 2, a) \<in> measure (\<lambda>a. nat \<lfloor>2 / a\<rfloor>)"
    unfolding b_def by (simp only: in_measure)
qed

declare log2_up.simps [simp del] log2_down.simps [simp del]

definition exponent :: "rat \<Rightarrow> int" where
  "exponent a = (if 1 \<le> a then log2_up a else log2_down a)"

text \<open>Rounding to the nearest integer, a tie to the even one.\<close>

definition roundEven :: "rat \<Rightarrow> int" where
  "roundEven x =
     (let f = \<lfloor>x\<rfloor>; r = x - of_int f
      in if r < 1 / 2 then f
         else if 1 / 2 < r then f + 1
         else if even f then f else f + 1)"

text \<open>
  \<open>fl x\<close> is the binary64 value of the exact result \<open>x\<close>: a significand of 53 bits
  above the smallest normal exponent \<open>- 1022\<close>, multiples of \<open>2 ^ - 1074\<close> below it, and
  an infinity when the rounded magnitude reaches \<open>2 ^ 1024\<close>.
\<close>

definition fl :: "rat \<Rightarrow> jsnum" where
  "fl x =
     (if x = 0 then Finite 0
      else
        let q = pow2 (max (exponent \<bar>x\<bar>) (- 1022) - 52);
            y = of_int (roundEven (\<bar>x\<bar> / q)) * q
        in if 2 ^ 1024 \<le> y then (if x < 0 then NegInfinity else Infinity)
           else Finite (if x < 0 then - y else y))"

text \<open>The operators \<open>-\<close> (unary), \<open>+\<close>, \<open>-\<close>, \<open>*\<close>, \<open>Math.abs\<close>, \<open><\<close> and \<open><=\<close> on numbers.\<close>

fun jneg :: "jsnum \<Rightarrow> jsnum" where
  "jneg NaN = NaN"
| "jneg NegInfinity = Infinity"
| "jneg (Finite a) = Finite (- a)"
| "jneg Infinity = NegInfinity"

fun jadd :: "jsnum \<Rightarrow> jsnum \<Rightarrow> jsnum" where
  "jadd (Finite a) (Finite b) = fl (a + b)"
| "jadd NaN y = NaN"
| "jadd x NaN = NaN"
| "jadd Infinity NegInfinity = NaN"
| "jadd NegInfinity Infinity = NaN"
| "jadd Infinity y = Infinity"
| "jadd x Infinity = Infinity"
| "jadd NegInfinity y = NegInfinity"
| "jadd x NegInfinity = NegInfinity"

definition jsub :: "jsnum \<Rightarrow> jsnum \<Rightarrow> jsnum" where
  "jsub x y = jadd x (jneg y)"

fun negative :: "jsnum \<Rightarrow> bool" where
  "negative NaN = False"
| "negative NegInfinity = True"
| "negative (Finite a) = (a < 0)"
| "negative Infinity = False"

fun jmul :: "jsnum \<Rightarrow> jsnum \<Rightarrow> jsnum" where
  "jmul (Finite a) (Finite b) = fl (a * b)"
| "jmul x y =
     (if x = NaN \<or> y = NaN \<or> x = Finite 0 \<or> y = Finite 0 then NaN
      else if negative x = negative y then Infinity
      else NegInfinity)"

fun jabs :: "jsnum \<Rightarrow> jsnum" where
  "jabs NaN = NaN"
| "jabs NegInfinity = Infinity"
| "jabs (Finite a) = Finite \<bar>a\<bar>"
| "jabs Infinity = Infinity"

fun jlt :: "jsnum \<Rightarrow> jsnum \<Rightarrow> bool" where
  "jlt (Finite a) (Finite b) = (a < b)"
| "jlt NaN y = False"
| "jlt x NaN = False"
| "jlt x NegInfinity = False"
| "jlt Infinity y = False"
| "jlt NegInfinity y = True"
| "jlt x Infinity = True"

fun jle :: "jsnum \<Rightarrow> jsnum \<Rightarrow> bool" where
  "jle (Finite a) (Finite b) = (a \<le> b)"
| "jle NaN y = False"
| "jle x NaN = False"
| "jle NegInfinity y = True"
| "jle x Infinity = True"
| "jle x NegInfinity = False"
| "jle Infinity y = False"

subsection \<open>Dynamic values\<close>

text \<open>What a caller can put in the \<open>duration\<close> option at run time.\<close>

datatype jsval =
    Undefined
  | Null
  | Boolean bool
  | Number jsnum
  | String jsstring
  | Object

datatype jstype = TUndefined | TObject | TBoolean | TNumber | TString

fun typeof :: "jsval \<Rightarrow> jstype" where
  "typeof Undefined = TUndefined"
| "typeof Null = TObject"
| "typeof (Boolean b) = TBoolean"
| "typeof (Number n) = TNumber"
| "typeof (String s) = TString"
| "typeof Object = TObject"

text \<open>The truthiness that \<open>if (v)\<close>, \<open>v && ...\<close> and \<open>!v\<close> test.\<close>

fun truthy :: "jsval \<Rightarrow> bool" where
  "truthy Undefined = False"
| "truthy Null = False"
| "truthy (Boolean b) = b"
| "truthy (Number n) = (n \<noteq> NaN \<and> n \<noteq> Finite 0)"
| "truthy (String s) = (s \<noteq> [])"
| "truthy Object = True"

section \<open>Data model\<close>

text \<open>
  \<open>src/types/LyricalSearchResult.ts\<close>; the field \<open>id\<close> is named \<open>id'\<close> here. The two
  numbers of a record are decoded from the provider's JSON and are finite.
\<close>

record LyricSearchResult =
  id' :: rat
  name :: jsstring
  trackName :: jsstring
  artistName :: jsstring
  albumName :: jsstring
  duration :: rat
  instrumental :: bool
  plainLyrics :: jsstring
  syncedLyrics :: jsstring

text \<open>\<open>src/types/LyricLine.ts\<close>; \<open>end\<close> and \<open>text\<close> are written \<open>end'\<close> and \<open>text'\<close>.\<close>

record LyricLine =
  start :: jsnum
  end' :: jsnum
  text' :: jsstring

text \<open>
  The conditions the source raises, one constructor per message of \<open>new Error(...)\<close>:
  \<open>FetchFailed\<close> is "Failed to fetch lyrics for ...", \<open>NotFound\<close> is "No lyrics found for
  ...", \<open>InvalidArgument\<close> is "songduration must be a number", \<open>NoSyncedLyrics\<close> is "No
  synced lyrics available for this song". \<open>TypeError\<close> is the exception the runtime raises
  when \<open>Array.prototype.reduce\<close> is called on an empty array without an initial value.
\<close>

datatype error = FetchFailed | NotFound | InvalidArgument | NoSyncedLyrics | TypeError

section \<open>The search provider\<close>

text \<open>
  The answer of \<open>fetch\<close> followed by \<open>search.json()\<close>: the \<open>ok\<close> flag of the response and
  the decoded body, \<open>None\<close> for a body that decodes to \<open>null\<close>. The provider is a
  parameter of the model; the requests issued so far are the state that is passed along.
\<close>

datatype response = Response (ok: bool) (json: "LyricSearchResult list option")

type_synonym provider = "jsstring \<Rightarrow> jsstring \<Rightarrow> response"
type_synonym requests = "(jsstring \<times> jsstring) list"

text \<open>The predicate of both \<open>filter\<close> calls: \<open>item.syncedLyrics && item.syncedLyrics.length > 0\<close>.\<close>

definition hasSynced :: "LyricSearchResult \<Rightarrow> bool" where
  "hasSynced item = (syncedLyrics item \<noteq> [] \<and> length (syncedLyrics item) > 0)"

definition querySongLyrics ::
  "provider \<Rightarrow> jsstring \<Rightarrow> jsstring \<Rightarrow> bool \<Rightarrow> requests
     \<Rightarrow> (error + LyricSearchResult list) \<times> requests" where
  "querySongLyrics net song artist syncedOnly rq =
     (let search = net song artist; rq' = rq @ [(song, artist)] in
      if \<not> ok search then (Inl FetchFailed, rq')
      else case json search of
             None \<Rightarrow> (Inl NotFound, rq')
           | Some data \<Rightarrow>
               if length data = 0 then (Inl NotFound, rq')
               else if syncedOnly then (Inr (filter hasSynced data), rq')
               else (Inr data, rq'))"

section \<open>Selection: getLyrics\<close>

text \<open>\<open>Array.prototype.reduce\<close> without an initial value.\<close>

fun reduce :: "('a \<Rightarrow> 'a \<Rightarrow> 'a) \<Rightarrow> 'a list \<Rightarrow> error + 'a" where
  "reduce f [] = Inl TypeError"
| "reduce f (x # xs) = Inr (foldl f x xs)"

text \<open>The callback of the \<open>reduce\<close> call, for a numeric \<open>duration\<close>.\<close>

definition closer :: "jsnum \<Rightarrow> LyricSearchResult \<Rightarrow> LyricSearchResult \<Rightarrow> LyricSearchResult" where
  "closer d prev curr' =
     (let prevDiff = jabs (jsub (Finite (duration prev)) d);
          currDiff = jabs (jsub (Finite (duration curr')) d)
      in if jlt currDiff prevDiff then curr' else prev)"

text \<open>
  \<open>getLyrics(song, artist, options)\<close> after the destructuring
  \<open>const { duration, syncedOnly = false } = options || {}\<close>: an absent \<open>duration\<close> is
  \<open>Undefined\<close>, an absent \<open>syncedOnly\<close> is \<open>False\<close>. The local \<open>lyric\<close> is \<open>None\<close> while it
  is \<open>undefined\<close>. Past the first check a truthy \<open>duration\<close> is a number; the last case of
  the inner \<open>case\<close> is therefore never taken.
\<close>

definition getLyrics ::
  "provider \<Rightarrow> jsstring \<Rightarrow> jsstring \<Rightarrow> jsval \<Rightarrow> bool \<Rightarrow> requests
     \<Rightarrow> (error + LyricSearchResult) \<times> requests" where
  "getLyrics net song artist dur syncedOnly rq =
     (if truthy dur \<and> typeof dur \<noteq> TNumber then (Inl InvalidArgument, rq)
      else case querySongLyrics net song artist False rq of
             (Inl e, rq') \<Rightarrow> (Inl e, rq')
           | (Inr data0, rq') \<Rightarrow>
               if length data0 = 0 then (Inl NotFound, rq')
               else
                 let data = (if syncedOnly then filter hasSynced data0 else data0) in
                 if truthy dur then
                   (case dur of
                      Number d \<Rightarrow>
                        (case reduce (closer d) data of
                           Inl e \<Rightarrow> (Inl e, rq')
                         | Inr closestLyric \<Rightarrow> (Inr closestLyric, rq'))
                    | _ \<Rightarrow> (Inl InvalidArgument, rq'))
                 else
                   (case (if length data > 0 then Some (data ! 0) else None) of
                      None \<Rightarrow> (Inl NotFound, rq')
                    | Some lyric \<Rightarrow> (Inr lyric, rq')))"

section \<open>Parsing: parseSyncedLyrics\<close>

subsection \<open>String primitives\<close>

text \<open>\<open>s.split("\n")\<close>: the empty string splits into one empty line.\<close>

fun split_lf :: "jsstring \<Rightarrow> jsstring list" where
  "split_lf [] = [[]]"
| "split_lf (c # cs) =
     (if c = 10 then [] # split_lf cs
      else case split_lf cs of
             [] \<Rightarrow> [[c]]
           | l # ls \<Rightarrow> (c # l) # ls)"

text \<open>
  The line terminators LF, CR, U+2028, U+2029 (which \<open>.\<close> does not match), and the white
  space of the language: TAB, VT, FF, SP, NBSP, U+FEFF and the space separators U+1680,
  U+2000 to U+200A, U+202F, U+205F, U+3000. \<open>trim\<close> removes both kinds at either end.
\<close>

definition isLineTerminator :: "jschar \<Rightarrow> bool" where
  "isLineTerminator c = (c = 10 \<or> c = 13 \<or> c = 8232 \<or> c = 8233)"

definition isWhiteSpace :: "jschar \<Rightarrow> bool" where
  "isWhiteSpace c =
     (c = 9 \<or> c = 11 \<or> c = 12 \<or> c = 32 \<or> c = 160 \<or> c = 65279 \<or> c = 5760
      \<or> (8192 \<le> c \<and> c \<le> 8202) \<or> c = 8239 \<or> c = 8287 \<or> c = 12288)"

definition isTrimmed :: "jschar \<Rightarrow> bool" where
  "isTrimmed c = (isWhiteSpace c \<or> isLineTerminator c)"

definition trim :: "jsstring \<Rightarrow> jsstring" where
  "trim s = rev (dropWhile isTrimmed (rev (dropWhile isTrimmed s)))"

text \<open>\<open>\d\<close> is an ASCII digit.\<close>

definition isDigit :: "jschar \<Rightarrow> bool" where
  "isDigit c = (48 \<le> c \<and> c \<le> 57)"

text \<open>
  \<open>line.match(/^\[(\d{2}):(\d{2}\.\d{2})\](.*)$/)\<close>: the three capture groups, or \<open>None\<close>
  for \<open>null\<close>. Without the \<open>m\<close> flag \<open>$\<close> is the end of the string, and without the \<open>s\<close>
  flag \<open>.\<close> matches no line terminator.
\<close>

fun match_line :: "jsstring \<Rightarrow> (jsstring \<times> jsstring \<times> jsstring) option" where
  "match_line (b # m1 # m2 # c # s1 # s2 # p # f1 # f2 # e # rest) =
     (if b = 91 \<and> isDigit m1 \<and> isDigit m2 \<and> c = 58 \<and> isDigit s1 \<and> isDigit s2 \<and> p = 46
         \<and> isDigit f1 \<and> isDigit f2 \<and> e = 93 \<and> \<not> list_ex isLineTerminator rest
      then Some ([m1, m2], [s1, s2, p, f1, f2], rest)
      else None)"
| "match_line _ = None"

text \<open>
  \<open>Number\<close> on a string of digits, and \<open>parseFloat\<close> on digits, a period and digits: the
  only arguments the parser passes. Each is the binary64 value nearest to the decimal
  value of the string.
\<close>

definition decimal :: "jsstring \<Rightarrow> nat" where
  "decimal s = foldl (\<lambda>n c. 10 * n + (c - 48)) 0 s"

definition Number' :: "jsstring \<Rightarrow> jsnum" where
  "Number' s = fl (of_nat (decimal s))"

definition parseFloat :: "jsstring \<Rightarrow> jsnum" where
  "parseFloat s =
     (let ip = takeWhile isDigit s; fp = takeWhile isDigit (drop (length ip + 1) s)
      in fl (of_nat (decimal ip) + of_nat (decimal fp) / 10 ^ length fp))"

text \<open>\<open>text.includes("\n")\<close> and \<open>text.replace(/\n/g, " ")\<close>.\<close>

definition includes_lf :: "jsstring \<Rightarrow> bool" where
  "includes_lf s = (10 \<in> set s)"

definition replace_lf :: "jsstring \<Rightarrow> jsstring" where
  "replace_lf s = map (\<lambda>c. if c = 10 then 32 else c) s"

text \<open>
  The literal assigned to an empty text. The source file holds the four characters
  U+00F0, U+0178, U+017D, U+00B5.
\<close>

definition placeholder :: jsstring where
  "placeholder = [240, 376, 381, 181]"

subsection \<open>The two loops\<close>

text \<open>
  The first loop, over the physical lines; \<open>startingLines\<close> is the accumulator, an entry
  \<open>{line, start}\<close> a pair, \<open>push\<close> appends.
\<close>

fun collect_lines ::
  "jsstring list \<Rightarrow> (jsstring \<times> jsnum) list \<Rightarrow> (jsstring \<times> jsnum) list" where
  "collect_lines [] startingLines = startingLines"
| "collect_lines (line # lyricalArray) startingLines =
     (if trim line = [] then collect_lines lyricalArray startingLines
      else case match_line line of
             None \<Rightarrow> collect_lines lyricalArray startingLines
           | Some (g1, g2, g3) \<Rightarrow>
               let start = jadd (jmul (Number' g1) (Finite 60)) (parseFloat g2);
                   text0 = trim g3;
                   text1 = (if text0 = [] then placeholder else text0);
                   text2 = (if includes_lf text1 then replace_lf text1 else text1)
               in collect_lines lyricalArray (startingLines @ [(text2, start)]))"

text \<open>
  The second loop, \<open>for (let i = 0; i < startingLines.length; i++)\<close>; \<open>nextLine\<close> is
  \<open>None\<close> when \<open>startingLines[i + 1]\<close> is \<open>undefined\<close>, and \<open>dur\<close> is \<open>lyrics.duration\<close>.
\<close>

function derive_ends ::
  "nat \<Rightarrow> (jsstring \<times> jsnum) list \<Rightarrow> jsnum \<Rightarrow> LyricLine list \<Rightarrow> LyricLine list" where
  "derive_ends i startingLines dur lyricalLines =
     (if i < length startingLines then
        let currentLine = startingLines ! i;
            nextLine = (if i + 1 < length startingLines then Some (startingLines ! (i + 1))
                        else None);
            start = snd currentLine;
            end = (case nextLine of Some n \<Rightarrow> snd n | None \<Rightarrow> dur)
        in derive_ends (i + 1) startingLines dur
             (lyricalLines @ [\<lparr>start = start, end' = end, text' = fst currentLine\<rparr>])
      else lyricalLines)"
  by pat_completeness auto
termination
  by (relation "measure (\<lambda>(i, startingLines, dur, lyricalLines). length startingLines - i)") auto

definition parseSyncedLyrics :: "LyricSearchResult \<Rightarrow> error + LyricLine list" where
  "parseSyncedLyrics lyrics =
     (if syncedLyrics lyrics = [] \<or> length (syncedLyrics lyrics) = 0 then Inl NoSyncedLyrics
      else
        let lyricalArray = split_lf (syncedLyrics lyrics);
            startingLines = collect_lines lyricalArray []
        in Inr (derive_ends 0 startingLines (Finite (duration lyrics)) []))"


section \<open>Composition: getLyricLines\<close>

text \<open>
  \<open>getLyricLines(song, artist, options)\<close>: the selection is always called with
  \<open>syncedOnly: true\<close>, whatever the caller's option says, and its record is parsed.
\<close>

definition getLyricLines ::
  "provider \<Rightarrow> jsstring \<Rightarrow> jsstring \<Rightarrow> jsval \<Rightarrow> requests
     \<Rightarrow> (error + LyricLine list) \<times> requests" where
  "getLyricLines net song artist dur rq =
     (case getLyrics net song artist dur True rq of
        (Inl e, rq') \<Rightarrow> (Inl e, rq')
      | (Inr lyrics, rq') \<Rightarrow> (parseSyncedLyrics lyrics, rq'))"


section \<open>Derived notions\<close>

text \<open>
  What one iteration of the first loop appends for a physical line: \<open>None\<close> when the
  iteration ends in \<open>continue\<close>.
\<close>

definition line_entry :: "jsstring \<Rightarrow> (jsstring \<times> jsnum) option" where
  "line_entry line =
     (if trim line = [] then None
      else case match_line line of
             None \<Rightarrow> None
           | Some (g1, g2, g3) \<Rightarrow>
               let start = jadd (jmul (Number' g1) (Finite 60)) (parseFloat g2);
                   text0 = trim g3;
                   text1 = (if text0 = [] then placeholder else text0);
                   text2 = (if includes_lf text1 then replace_lf text1 else text1)
               in Some (text2, start))"

text \<open>A physical line is recorded when it passes both \<open>continue\<close> tests of the first loop.\<close>

definition recorded :: "jsstring \<Rightarrow> bool" where
  "recorded line = (trim line \<noteq> [] \<and> match_line line \<noteq> None)"

text \<open>
  The grammar \<open>[MM:SS.ff]<rest>\<close> as the specification words it: an opening bracket, two
  digits, a colon, two digits, a period, two digits, a closing bracket, then anything.
  \<open>stamp\<close> is \<open>MM * 60 + SS.ff\<close> in double precision, read off the digits of such a line:
  the doubles of \<open>MM\<close> and of \<open>SS.ff\<close>, a double product and a double sum.
\<close>

definition digitValue :: "jschar \<Rightarrow> nat" where
  "digitValue c = c - 48"

definition grammar :: "jsstring \<Rightarrow> bool" where
  "grammar l =
     (10 \<le> length l \<and> l ! 0 = 91 \<and> isDigit (l ! 1) \<and> isDigit (l ! 2) \<and> l ! 3 = 58
      \<and> isDigit (l ! 4) \<and> isDigit (l ! 5) \<and> l ! 6 = 46 \<and> isDigit (l ! 7) \<and> isDigit (l ! 8)
      \<and> l ! 9 = 93)"

definition stamp :: "jsstring \<Rightarrow> jsnum" where
  "stamp l =
     jadd (jmul (fl (of_nat (10 * digitValue (l ! 1) + digitValue (l ! 2)))) (Finite 60))
          (fl (of_nat (10 * digitValue (l ! 4) + digitValue (l ! 5))
               + of_nat (10 * digitValue (l ! 7) + digitValue (l ! 8)) / 100))"

text \<open>The grammar with a rest that holds no line terminator.\<close>

definition accepted :: "jsstring \<Rightarrow> bool" where
  "accepted l = (grammar l \<and> \<not> list_ex isLineTerminator (drop 10 l))"

text \<open>The text shown for a line of the grammar: its trimmed rest, or the placeholder.\<close>

definition shown_text :: "jsstring \<Rightarrow> jsstring" where
  "shown_text l = (if trim (drop 10 l) = [] then placeholder else trim (drop 10 l))"

definition recorded_lines :: "jsstring \<Rightarrow> (jsstring \<times> jsnum) list" where
  "recorded_lines s = map (\<lambda>l. (shown_text l, stamp l)) (filter accepted (split_lf s))"

text \<open>The element the second loop appends at index \<open>i\<close>.\<close>

definition timed :: "(jsstring \<times> jsnum) list \<Rightarrow> jsnum \<Rightarrow> nat \<Rightarrow> LyricLine" where
  "timed sl dur i =
     \<lparr>start = snd (sl ! i),
      end' = (if i + 1 < length sl then snd (sl ! (i + 1)) else dur),
      text' = fst (sl ! i)\<rparr>"

text \<open>The list \<open>getLyrics\<close> selects from: the provider's, filtered when \<open>syncedOnly\<close> is set.\<close>

definition candidates :: "LyricSearchResult list \<Rightarrow> bool \<Rightarrow> LyricSearchResult list" where
  "candidates data0 syncedOnly = (if syncedOnly then filter hasSynced data0 else data0)"

text \<open>The value of \<open>Math.abs(record.duration - duration)\<close>, as \<open>closer\<close> computes it.\<close>

definition difference :: "jsnum \<Rightarrow> LyricSearchResult \<Rightarrow> jsnum" where
  "difference d item = jabs (jsub (Finite (duration item)) d)"

subsection \<open>Sample inputs\<close>

text \<open>A provider that answers every search with the same list, and a record with a given
  synced text and duration.\<close>

definition serve :: "LyricSearchResult list \<Rightarrow> provider" where
  "serve data song artist = Response True (Some data)"

definition sample_record :: "jsstring \<Rightarrow> rat \<Rightarrow> LyricSearchResult" where
  "sample_record synced dur =
     \<lparr>id' = 1, name = js ''n'', trackName = js ''t'', artistName = js ''a'',
      albumName = js ''b'', duration = dur, instrumental = False, plainLyrics = js ''p'',
      syncedLyrics = synced\<rparr>"

definition hello_world :: jsstring where
  "hello_world = js ''[00:01.50]Hello'' @ [10] @ js ''[00:03.00]World''"

definition hello_world_crlf :: jsstring where
  "hello_world_crlf = js ''[00:01.50]Hello'' @ [13, 10] @ js ''[00:03.00]World''"

definition out_of_order :: jsstring where
  "out_of_order = js ''[00:03.00]b'' @ [10] @ js ''[00:01.00]a''"

definition one_line :: jsstring where
  "one_line = js ''# title'' @ [10] @ js ''[00:05.00]Only''"

definition one_line_cr :: jsstring where
  "one_line_cr = js ''[00:05.00]Only'' @ [13]"

definition no_stamps :: jsstring where
  "no_stamps = js ''la la'' @ [10] @ js ''[0:01.5]la''"

definition interlude :: jsstring where
  "interlude = js ''[01:02.30]   ''"

definition interlude_cr :: jsstring where
  "interlude_cr = js ''[01:02.30]  '' @ [13]"

definition padded :: jsstring where
  "padded = js ''[00:07.00]'' @ [9, 32] @ js ''Hi there'' @ [32, 160]"

definition inexact :: jsstring where
  "inexact = js ''[01:08.04]x''"

definition same_time_twice :: jsstring where
  "same_time_twice = js ''[00:68.04]a'' @ [10] @ js ''[01:08.04]b''"

definition unsynced_200 :: LyricSearchResult where
  "unsynced_200 = sample_record [] 200"

definition synced_100 :: LyricSearchResult where
  "synced_100 = sample_record (js ''[00:01.00]a'') 100"

definition synced_200 :: LyricSearchResult where
  "synced_200 = sample_record (js ''[00:01.00]a'') 200"

definition synced_260 :: LyricSearchResult where
  "synced_260 = sample_record (js ''[00:01.00]a'') 260"

definition synced_300 :: LyricSearchResult where
  "synced_300 = sample_record (js ''[00:01.00]a'') 300"

definition synced_2_53 :: LyricSearchResult where
  "synced_2_53 = sample_record (js ''[00:01.00]a'') 9007199254740992"

definition synced_2_53_less_1 :: LyricSearchResult where
  "synced_2_53_less_1 = sample_record (js ''[00:01.00]a'') 9007199254740991"

definition song0 :: jsstring where
  "song0 = js ''Song''"

definition artist0 :: jsstring where
  "artist0 = js ''Artist''"

section \<open>Rounding on known values\<close>

lemma floor_rat_numeral: "\<lfloor>numeral a / numeral b :: rat\<rfloor> = numeral a div numeral b"
  using floor_divide_of_int_eq [of "numeral a" "numeral b", where ?'a = rat] by simp

lemma floor_rat_one_numeral: "\<lfloor>1 / numeral b :: rat\<rfloor> = 1 div numeral b"
  using floor_divide_of_int_eq [of 1 "numeral b", where ?'a = rat] by simp

lemmas fl_eval =
  fl_def exponent_def log2_up.simps log2_down.simps pow2_def roundEven_def Let_def
  floor_rat_numeral floor_rat_one_numeral

lemma fl_one_tenth: "fl (1 / 10) = Finite (3602879701896397 / 36028797018963968)"
  by (simp add: fl_eval)

lemma fl_tie_to_even: "fl (2 ^ 53 + 1) = Finite (2 ^ 53)"
  by (simp add: fl_eval)

lemma fl_68_04: "fl (1701 / 25) = Finite (4787889353848259 / 70368744177664)"
  by (simp add: fl_eval)

lemma fl_overflow: "fl (2 ^ 1024 - 2 ^ 970) = Infinity"
  by (simp add: fl_eval)

lemma fl_subnormal: "fl (3 / 2 ^ 1075) = Finite (1 / 2 ^ 1073)"
  by (simp add: fl_eval)

lemma fl_underflow: "fl (1 / 2 ^ 1075) = Finite 0"
  by (simp add: fl_eval)

lemma fl_not_NaN: "fl x \<noteq> NaN"
  by (simp add: fl_def Let_def)

section \<open>The loops in closed form\<close>

declare derive_ends.simps [simp del]

lemma collect_lines_eq: "collect_lines ls acc = acc @ List.map_filter line_entry ls"
  by (induction ls arbitrary: acc)
     (auto simp: List.map_filter_simps line_entry_def Let_def split: option.splits)

lemma derive_ends_eq: "derive_ends i sl dur acc = acc @ map (timed sl dur) [i..<length sl]"
proof (induction i sl dur acc rule: derive_ends.induct)
  case (1 i sl dur acc)
  show ?case
  proof (cases "i < length sl")
    case True
    then show ?thesis
      using "1.IH" [OF True refl refl refl refl]
      by (subst derive_ends.simps) (simp add: upt_conv_Cons timed_def Let_def)
  next
    case False
    then show ?thesis by (subst derive_ends.simps) simp
  qed
qed

section \<open>The regular expression and the grammar\<close>

lemma match_line_eq:
  "match_line l =
     (if accepted l then Some (take 2 (drop 1 l), take 5 (drop 4 l), drop 10 l) else None)"
  by (cases l rule: match_line.cases) (auto simp: accepted_def grammar_def)

lemma set_trim: "set (trim s) \<subseteq> set s"
proof -
  have "set (trim s) \<subseteq> set (rev (dropWhile isTrimmed s))"
    unfolding trim_def set_rev by (auto dest: set_dropWhileD)
  also have "\<dots> \<subseteq> set s"
    by (auto dest: set_dropWhileD)
  finally show ?thesis .
qed

lemma trim_no_lf: "\<not> list_ex isLineTerminator s \<Longrightarrow> \<not> includes_lf (trim s)"
  using set_trim [of s] by (auto simp: includes_lf_def list_ex_iff isLineTerminator_def)

lemma placeholder_no_lf: "\<not> includes_lf placeholder"
  by (simp add: includes_lf_def placeholder_def)

lemma not_trimmed_bracket: "\<not> isTrimmed 91"
  by (simp add: isTrimmed_def isWhiteSpace_def isLineTerminator_def)

lemma trim_nonempty: "s \<noteq> [] \<Longrightarrow> \<not> isTrimmed (hd s) \<Longrightarrow> trim s \<noteq> []"
proof -
  assume ne: "s \<noteq> []" and h: "\<not> isTrimmed (hd s)"
  then have "dropWhile isTrimmed s = s"
    by (cases s) auto
  moreover have "hd s \<in> set (rev s)"
    using ne by simp
  then have "dropWhile isTrimmed (rev s) \<noteq> []"
    using h by (auto simp: dropWhile_eq_Nil_conv)
  ultimately show ?thesis by (simp add: trim_def)
qed

lemma grammar_trim: "grammar l \<Longrightarrow> trim l \<noteq> []"
proof -
  assume g: "grammar l"
  then have "l \<noteq> []" and "hd l = 91"
    by (cases l; simp add: grammar_def)+
  then show ?thesis
    using trim_nonempty [of l] not_trimmed_bracket by simp
qed

lemma recorded_accepted: "recorded l = accepted l"
  using grammar_trim [of l] by (auto simp: recorded_def match_line_eq accepted_def)

lemma groups_stamp:
  "accepted l \<Longrightarrow>
   jadd (jmul (Number' (take 2 (drop 1 l))) (Finite 60)) (parseFloat (take 5 (drop 4 l)))
     = stamp l"
  by (cases l rule: match_line.cases)
     (auto simp: accepted_def grammar_def stamp_def Number'_def parseFloat_def decimal_def
                 digitValue_def isDigit_def)

lemma line_entry_eq:
  "line_entry l = (if accepted l then Some (shown_text l, stamp l) else None)"
proof (cases "accepted l")
  case True
  then have "trim l \<noteq> []" and "\<not> list_ex isLineTerminator (drop 10 l)"
    by (auto simp: accepted_def grammar_trim)
  then show ?thesis
    using True groups_stamp [OF True] trim_no_lf [of "drop 10 l"] placeholder_no_lf
    by (simp add: line_entry_def match_line_eq shown_text_def Let_def)
next
  case False
  then show ?thesis by (simp add: line_entry_def match_line_eq)
qed

lemma collect_lines_split: "collect_lines (split_lf s) [] = recorded_lines s"
proof -
  have "line_entry = (\<lambda>l. if accepted l then Some (shown_text l, stamp l) else None)"
    by (rule ext) (rule line_entry_eq)
  then show ?thesis
    by (simp add: collect_lines_eq recorded_lines_def map_filter_map_filter)
qed

lemma parse_eq:
  "parseSyncedLyrics r =
     (if syncedLyrics r = [] then Inl NoSyncedLyrics
      else Inr (map (timed (recorded_lines (syncedLyrics r)) (Finite (duration r)))
                    [0..<length (recorded_lines (syncedLyrics r))]))"
  by (simp add: parseSyncedLyrics_def collect_lines_split derive_ends_eq Let_def)

lemma shown_text_nonempty: "shown_text l \<noteq> []"
  by (simp add: shown_text_def placeholder_def)

text \<open>\<open>trim\<close> removes a run of white space at either end, and the longest one.\<close>

lemma trim_decomposition:
  "\<exists>pre suf. s = pre @ trim s @ suf \<and> list_all isTrimmed pre \<and> list_all isTrimmed suf
     \<and> (trim s \<noteq> [] \<longrightarrow> \<not> isTrimmed (hd (trim s)) \<and> \<not> isTrimmed (last (trim s)))"
proof -
  define u where "u = dropWhile isTrimmed s"
  define v where "v = dropWhile isTrimmed (rev u)"
  have t: "trim s = rev v"
    by (simp add: trim_def u_def v_def)
  have s: "s = takeWhile isTrimmed s @ u"
    by (simp add: u_def)
  have ru: "rev u = takeWhile isTrimmed (rev u) @ v"
    by (simp add: v_def)
  then have "rev (rev u) = rev (takeWhile isTrimmed (rev u) @ v)"
    by simp
  then have u: "u = rev v @ rev (takeWhile isTrimmed (rev u))"
    by simp
  have dec: "s = takeWhile isTrimmed s @ trim s @ rev (takeWhile isTrimmed (rev u))"
    using s u t by simp
  have p1: "list_all isTrimmed (takeWhile isTrimmed s)"
    by (auto simp: list_all_iff dest: set_takeWhileD)
  have p2: "list_all isTrimmed (rev (takeWhile isTrimmed (rev u)))"
    by (auto simp: list_all_iff dest: set_takeWhileD)
  have ends: "\<not> isTrimmed (hd (trim s)) \<and> \<not> isTrimmed (last (trim s))" if ne: "trim s \<noteq> []"
  proof
    from ne t have v: "v \<noteq> []" by simp
    then have "\<not> isTrimmed (hd v)"
      unfolding v_def by (rule hd_dropWhile)
    then show "\<not> isTrimmed (last (trim s))"
      using v by (simp add: t last_rev)
    from v have "u \<noteq> []"
      by (auto simp: v_def)
    then have hu: "\<not> isTrimmed (hd u)"
      unfolding u_def by (rule hd_dropWhile)
    have "last v = last (rev u)"
      using v ru by (metis last_appendR)
    then have "hd (rev v) = hd u"
      using v \<open>u \<noteq> []\<close> by (simp add: hd_rev last_rev)
    with hu show "\<not> isTrimmed (hd (trim s))"
      by (simp add: t)
  qed
  from dec p1 p2 ends show ?thesis
    by blast
qed

subsection \<open>The parser on the sample inputs\<close>

lemmas string_defs =
  js_def trim_def isTrimmed_def isWhiteSpace_def isLineTerminator_def isDigit_def
  accepted_def grammar_def stamp_def digitValue_def shown_text_def placeholder_def

lemma recorded_lines_hello_world:
  "recorded_lines hello_world = [(js ''Hello'', Finite (3 / 2)), (js ''World'', Finite 3)]"
  by (simp add: recorded_lines_def hello_world_def string_defs fl_eval)

lemma recorded_lines_crlf:
  "recorded_lines hello_world_crlf = [(js ''World'', Finite 3)]"
  by (simp add: recorded_lines_def hello_world_crlf_def string_defs fl_eval)

lemma recorded_lines_out_of_order:
  "recorded_lines out_of_order = [(js ''b'', Finite 3), (js ''a'', Finite 1)]"
  by (simp add: recorded_lines_def out_of_order_def string_defs fl_eval)

lemma recorded_lines_one_line:
  "recorded_lines one_line = [(js ''Only'', Finite 5)]"
  by (simp add: recorded_lines_def one_line_def string_defs fl_eval)

lemma recorded_lines_one_line_cr:
  "recorded_lines one_line_cr = []"
  by (simp add: recorded_lines_def one_line_cr_def string_defs)

lemma recorded_lines_no_stamps:
  "recorded_lines no_stamps = []"
  by (simp add: recorded_lines_def no_stamps_def string_defs)

lemma recorded_lines_interlude:
  "recorded_lines interlude = [(placeholder, Finite (4383972762268467 / 70368744177664))]"
  by (simp add: recorded_lines_def interlude_def string_defs fl_eval)

lemma recorded_lines_interlude_cr:
  "recorded_lines interlude_cr = []"
  by (simp add: recorded_lines_def interlude_cr_def string_defs)

lemma recorded_lines_padded:
  "recorded_lines padded = [(js ''Hi there'', Finite 7)]"
  by (simp add: recorded_lines_def padded_def string_defs fl_eval)

lemma recorded_lines_inexact:
  "recorded_lines inexact = [(js ''x'', Finite (2393944676924129 / 35184372088832))]"
  by (simp add: recorded_lines_def inexact_def string_defs fl_eval)

lemma recorded_lines_same_time_twice:
  "recorded_lines same_time_twice =
     [(js ''a'', Finite (4787889353848259 / 70368744177664)),
      (js ''b'', Finite (2393944676924129 / 35184372088832))]"
  by (simp add: recorded_lines_def same_time_twice_def string_defs fl_eval)

lemma parse_hello_world:
  "parseSyncedLyrics (sample_record hello_world d) =
     Inr [\<lparr>start = Finite (3 / 2), end' = Finite 3, text' = js ''Hello''\<rparr>,
          \<lparr>start = Finite 3, end' = Finite d, text' = js ''World''\<rparr>]"
  by (simp add: parse_eq sample_record_def recorded_lines_hello_world timed_def)
     (simp add: hello_world_def js_def)

lemma parse_crlf:
  "parseSyncedLyrics (sample_record hello_world_crlf d) =
     Inr [\<lparr>start = Finite 3, end' = Finite d, text' = js ''World''\<rparr>]"
  by (simp add: parse_eq sample_record_def recorded_lines_crlf timed_def)
     (simp add: hello_world_crlf_def js_def)

lemma parse_out_of_order:
  "parseSyncedLyrics (sample_record out_of_order d) =
     Inr [\<lparr>start = Finite 3, end' = Finite 1, text' = js ''b''\<rparr>,
          \<lparr>start = Finite 1, end' = Finite d, text' = js ''a''\<rparr>]"
  by (simp add: parse_eq sample_record_def recorded_lines_out_of_order timed_def)
     (simp add: out_of_order_def js_def)

lemma parse_one_line:
  "parseSyncedLyrics (sample_record one_line d) =
     Inr [\<lparr>start = Finite 5, end' = Finite d, text' = js ''Only''\<rparr>]"
  by (simp add: parse_eq sample_record_def recorded_lines_one_line timed_def)
     (simp add: one_line_def js_def)

lemma parse_one_line_cr:
  "parseSyncedLyrics (sample_record one_line_cr d) = Inr []"
  by (simp add: parse_eq sample_record_def recorded_lines_one_line_cr)
     (simp add: one_line_cr_def js_def)

lemma parse_interlude:
  "parseSyncedLyrics (sample_record interlude d) =
     Inr [\<lparr>start = Finite (4383972762268467 / 70368744177664), end' = Finite d,
           text' = placeholder\<rparr>]"
  by (simp add: parse_eq sample_record_def recorded_lines_interlude timed_def)
     (simp add: interlude_def js_def)

lemma parse_interlude_cr:
  "parseSyncedLyrics (sample_record interlude_cr d) = Inr []"
  by (simp add: parse_eq sample_record_def recorded_lines_interlude_cr)
     (simp add: interlude_cr_def js_def)

lemma parse_padded:
  "parseSyncedLyrics (sample_record padded d) =
     Inr [\<lparr>start = Finite 7, end' = Finite d, text' = js ''Hi there''\<rparr>]"
  by (simp add: parse_eq sample_record_def recorded_lines_padded timed_def)
     (simp add: padded_def js_def)

lemma parse_inexact:
  "parseSyncedLyrics (sample_record inexact d) =
     Inr [\<lparr>start = Finite (2393944676924129 / 35184372088832), end' = Finite d,
           text' = js ''x''\<rparr>]"
  by (simp add: parse_eq sample_record_def recorded_lines_inexact timed_def)
     (simp add: inexact_def js_def)

lemma parse_same_time_twice:
  "parseSyncedLyrics (sample_record same_time_twice d) =
     Inr [\<lparr>start = Finite (4787889353848259 / 70368744177664),
           end' = Finite (2393944676924129 / 35184372088832), text' = js ''a''\<rparr>,
          \<lparr>start = Finite (2393944676924129 / 35184372088832), end' = Finite d,
           text' = js ''b''\<rparr>]"
  by (simp add: parse_eq sample_record_def recorded_lines_same_time_twice timed_def)
     (simp add: same_time_twice_def js_def)

lemma recorded_eq: "recorded = accepted"
  by (rule ext) (rule recorded_accepted)

lemma parse_starts:
  "parseSyncedLyrics r = Inr ls \<Longrightarrow>
   map start ls = map stamp (filter accepted (split_lf (syncedLyrics r)))"
  by (auto simp: parse_eq recorded_lines_def timed_def map_nth
           intro!: nth_equalityI split: if_splits)

lemma parse_texts:
  "parseSyncedLyrics r = Inr ls \<Longrightarrow>
   map text' ls = map shown_text (filter accepted (split_lf (syncedLyrics r)))"
  by (auto simp: parse_eq recorded_lines_def timed_def map_nth
           intro!: nth_equalityI split: if_splits)

section \<open>The selection in closed form\<close>

lemma jlt_trans: "jlt a b \<Longrightarrow> jlt b c \<Longrightarrow> jlt a c"
  by (cases a; cases b; cases c) auto

lemma jlt_jle_trans: "jlt a b \<Longrightarrow> jle b c \<Longrightarrow> jlt a c"
  by (cases a; cases b; cases c) auto

lemma not_jlt_jle: "a \<noteq> NaN \<Longrightarrow> b \<noteq> NaN \<Longrightarrow> \<not> jlt a b \<Longrightarrow> jle b a"
  by (cases a; cases b) auto

lemma difference_not_NaN: "d \<noteq> NaN \<Longrightarrow> difference d item \<noteq> NaN"
proof -
  assume d: "d \<noteq> NaN"
  have "jsub (Finite a) d \<noteq> NaN" for a
    using d fl_not_NaN by (cases d) (simp_all add: jsub_def)
  moreover have "jabs x \<noteq> NaN" if "x \<noteq> NaN" for x
    using that by (cases x) simp_all
  ultimately show ?thesis
    by (simp add: difference_def)
qed

lemma closer_difference:
  "closer d prev curr' = (if jlt (difference d curr') (difference d prev) then curr' else prev)"
  by (simp add: closer_def difference_def Let_def)

lemma foldl_closer_first_min:
  assumes d: "d \<noteq> NaN"
  shows "\<exists>pre post. x # xs = pre @ foldl (closer d) x xs # post
     \<and> (\<forall>y\<in>set pre. jlt (difference d (foldl (closer d) x xs)) (difference d y))
     \<and> (\<forall>y\<in>set post. jle (difference d (foldl (closer d) x xs)) (difference d y))"
proof (induction xs rule: rev_induct)
  case Nil
  show ?case by (intro exI [of _ "[]"]) simp
next
  case (snoc y xs)
  let ?r = "foldl (closer d) x xs"
  from snoc obtain pre post where dec: "x # xs = pre @ ?r # post"
    and lt: "\<forall>z\<in>set pre. jlt (difference d ?r) (difference d z)"
    and le: "\<forall>z\<in>set post. jle (difference d ?r) (difference d z)"
    by blast
  show ?case
  proof (cases "jlt (difference d y) (difference d ?r)")
    case True
    then have res: "foldl (closer d) x (xs @ [y]) = y"
      by (simp add: closer_difference)
    have "\<forall>z\<in>set (x # xs). jlt (difference d y) (difference d z)"
      unfolding dec using True lt le by (auto intro: jlt_trans jlt_jle_trans)
    then show ?thesis
      unfolding res
      by (intro exI [of _ "x # xs"] exI [of _ "[]"]) simp
  next
    case False
    then have res: "foldl (closer d) x (xs @ [y]) = ?r"
      by (simp add: closer_difference)
    from False have "jle (difference d ?r) (difference d y)"
      using not_jlt_jle difference_not_NaN [OF d] by blast
    then show ?thesis
      unfolding res using dec lt le
      by (intro exI [of _ pre] exI [of _ "post @ [y]"]) auto
  qed
qed

lemma query_ok:
  "ok (net song artist) \<Longrightarrow> json (net song artist) = Some data0 \<Longrightarrow> data0 \<noteq> [] \<Longrightarrow>
   querySongLyrics net song artist False rq = (Inr data0, rq @ [(song, artist)])"
  by (simp add: querySongLyrics_def Let_def)

lemma getLyrics_number:
  assumes "ok (net song artist)" and "json (net song artist) = Some data0" and "data0 \<noteq> []"
    and "truthy (Number d)"
  shows "getLyrics net song artist (Number d) syncedOnly rq =
           (case reduce (closer d) (candidates data0 syncedOnly) of
              Inl e \<Rightarrow> (Inl e, rq @ [(song, artist)])
            | Inr r \<Rightarrow> (Inr r, rq @ [(song, artist)]))"
  using assms by (simp add: getLyrics_def query_ok candidates_def Let_def)

lemma getLyrics_falsy:
  assumes "ok (net song artist)" and "json (net song artist) = Some data0" and "data0 \<noteq> []"
    and "\<not> truthy dur"
  shows "getLyrics net song artist dur syncedOnly rq =
           (case candidates data0 syncedOnly of
              [] \<Rightarrow> (Inl NotFound, rq @ [(song, artist)])
            | r # rs \<Rightarrow> (Inr r, rq @ [(song, artist)]))"
  using assms by (simp add: getLyrics_def query_ok candidates_def Let_def split: list.splits)

lemma getLyrics_falsy_absent:
  "\<not> truthy dur \<Longrightarrow>
   getLyrics net song artist dur syncedOnly rq = getLyrics net song artist Undefined syncedOnly rq"
  by (simp add: getLyrics_def split: prod.splits sum.splits)

lemma truthy_number:
  "truthy dur \<Longrightarrow> typeof dur = TNumber \<Longrightarrow> \<exists>d. dur = Number d \<and> d \<noteq> NaN \<and> d \<noteq> Finite 0"
  by (cases dur) auto

lemmas sample_defs =
  serve_def sample_record_def unsynced_200_def synced_100_def synced_200_def synced_260_def
  synced_300_def synced_2_53_def synced_2_53_less_1_def candidates_def hasSynced_def

section \<open>End times\<close>

text \<open>
  Claim C1, as stated: a text with exactly one line matching the grammar yields exactly one
  timed line. The text below is one line of the form \<open>[MM:SS.ff]<rest>\<close> whose rest ends
  in a carriage return; the regular expression does not match it and the parse is empty.
\<close>

theorem C1_counterexample:
  "filter grammar (split_lf one_line_cr) = [js ''[00:05.00]Only'' @ [13]]
   \<and> parseSyncedLyrics (sample_record one_line_cr 10) = Inr []"
  using parse_one_line_cr [of 10]
  by (simp add: one_line_cr_def js_def grammar_def isDigit_def)

text \<open>
  Claim C1, amended. When the parse of a record emits \<open>n \<ge> 1\<close> timed lines, the end of
  line \<open>i\<close> is the start of line \<open>i + 1\<close> for every \<open>i < n - 1\<close>, and the end of the last
  line is the record's duration, whatever its relation to the last start. A text with
  exactly one line that matches the grammar with a rest free of line terminators yields
  exactly one timed line, whose end is the duration.
\<close>

theorem C1_end_times:
  "(parseSyncedLyrics r = Inr ls \<and> 1 \<le> length ls \<longrightarrow>
      (\<forall>i. i + 1 < length ls \<longrightarrow> end' (ls ! i) = start (ls ! (i + 1)))
      \<and> end' (ls ! (length ls - 1)) = Finite (duration r))
   \<and> (length (filter accepted (split_lf (syncedLyrics r))) = 1 \<longrightarrow>
        (\<exists>x. parseSyncedLyrics r = Inr [x] \<and> end' x = Finite (duration r)))"
proof (intro conjI impI)
  assume a: "parseSyncedLyrics r = Inr ls \<and> 1 \<le> length ls"
  define sl where "sl = recorded_lines (syncedLyrics r)"
  from a have ls: "ls = map (timed sl (Finite (duration r))) [0..<length sl]"
    by (simp add: parse_eq sl_def split: if_splits)
  then have len: "length ls = length sl" by simp
  show "\<forall>i. i + 1 < length ls \<longrightarrow> end' (ls ! i) = start (ls ! (i + 1))"
    unfolding len by (simp add: ls timed_def)
  from a len have pos: "0 < length sl" by auto
  then have "ls ! (length sl - 1) = timed sl (Finite (duration r)) (length sl - 1)"
    by (simp add: ls)
  moreover have "\<not> length sl - 1 + 1 < length sl"
    using pos by simp
  ultimately have "end' (ls ! (length sl - 1)) = Finite (duration r)"
    by (simp only: timed_def LyricLine.simps if_False)
  then show "end' (ls ! (length ls - 1)) = Finite (duration r)"
    by (simp only: len)
next
  assume one: "length (filter accepted (split_lf (syncedLyrics r))) = 1"
  then have len: "length (recorded_lines (syncedLyrics r)) = 1"
    by (simp add: recorded_lines_def)
  have "syncedLyrics r \<noteq> []"
  proof
    assume "syncedLyrics r = []"
    then have "recorded_lines (syncedLyrics r) = []"
      by (simp add: recorded_lines_def accepted_def grammar_def)
    with len show False by simp
  qed
  then show "\<exists>x. parseSyncedLyrics r = Inr [x] \<and> end' x = Finite (duration r)"
    using len by (simp add: parse_eq timed_def)
qed

theorem C1_end_times_witness:
  "parseSyncedLyrics (sample_record hello_world 2) =
     Inr [\<lparr>start = Finite (3 / 2), end' = Finite 3, text' = js ''Hello''\<rparr>,
          \<lparr>start = Finite 3, end' = Finite 2, text' = js ''World''\<rparr>]
   \<and> length (filter accepted (split_lf (syncedLyrics (sample_record one_line 10)))) = 1
   \<and> parseSyncedLyrics (sample_record one_line 10) =
       Inr [\<lparr>start = Finite 5, end' = Finite 10, text' = js ''Only''\<rparr>]"
proof -
  have "length (recorded_lines one_line) = 1"
    by (simp add: recorded_lines_one_line)
  then have one:
    "length (filter accepted (split_lf (syncedLyrics (sample_record one_line 10)))) = 1"
    by (simp add: recorded_lines_def sample_record_def)
  show ?thesis
    using C1_end_times [of "sample_record hello_world 2"
        "[\<lparr>start = Finite (3 / 2), end' = Finite 3, text' = js ''Hello''\<rparr>,
          \<lparr>start = Finite 3, end' = Finite 2, text' = js ''World''\<rparr>]"]
      C1_end_times [of "sample_record one_line 10" "[]"]
      one parse_hello_world [of 2] parse_one_line [of 10]
    by simp
qed

section \<open>Which lines are recorded\<close>

text \<open>
  Claim C3, as stated: a timed line is recorded exactly when the physical line has the form
  \<open>[MM:SS.ff]<rest>\<close>. The first line of the text below has that form, with the rest
  \<open>Hello\<close> followed by a carriage return, and no timed line is recorded for it: the
  \<open>.\<close> of the regular expression matches no line terminator and \<open>$\<close> is the end of the
  string.
\<close>

theorem C3_counterexample:
  "split_lf hello_world_crlf = [js ''[00:01.50]Hello'' @ [13], js ''[00:03.00]World'']
   \<and> grammar (js ''[00:01.50]Hello'' @ [13])
   \<and> parseSyncedLyrics (sample_record hello_world_crlf 10) =
       Inr [\<lparr>start = Finite 3, end' = Finite 10, text' = js ''World''\<rparr>]"
  using parse_crlf [of 10]
  by (simp add: hello_world_crlf_def js_def grammar_def isDigit_def)

text \<open>
  Claim C3, amended. A physical line is recorded exactly when it has the form
  \<open>[MM:SS.ff]<rest>\<close> with two digits, a colon, two digits, a period and two digits
  between the brackets, and a rest that holds no line terminator (carriage return, U+2028,
  U+2029). For every non-empty text the parse returns normally, with one timed line per
  recorded line, in order; every other line is skipped. The start of a timed line is
  \<open>MM * 60 + SS.ff\<close> evaluated in double precision: the double nearest to \<open>SS.ff\<close> added
  to the double \<open>MM * 60\<close> and rounded again, which for \<open>[01:08.04]\<close> is the double below
  the one nearest to 68.04.
\<close>

theorem C3_recorded_lines:
  "recorded l = (grammar l \<and> \<not> list_ex isLineTerminator (drop 10 l))
   \<and> (syncedLyrics r \<noteq> [] \<longrightarrow>
        (\<exists>ls. parseSyncedLyrics r = Inr ls
           \<and> map start ls = map stamp (filter recorded (split_lf (syncedLyrics r)))))"
proof (intro conjI impI)
  show "recorded l = (grammar l \<and> \<not> list_ex isLineTerminator (drop 10 l))"
    by (simp add: recorded_accepted accepted_def)
next
  assume ne: "syncedLyrics r \<noteq> []"
  then obtain ls where p: "parseSyncedLyrics r = Inr ls"
    by (simp add: parse_eq)
  with parse_starts [OF p]
  show "\<exists>ls. parseSyncedLyrics r = Inr ls
           \<and> map start ls = map stamp (filter recorded (split_lf (syncedLyrics r)))"
    by (auto simp: recorded_eq)
qed

theorem C3_recorded_lines_witness:
  "syncedLyrics (sample_record hello_world 10) \<noteq> []
   \<and> recorded (js ''[00:01.50]Hello'')
   \<and> stamp (js ''[00:01.50]Hello'') = Finite (3 / 2)
   \<and> parseSyncedLyrics (sample_record hello_world 10) =
       Inr [\<lparr>start = Finite (3 / 2), end' = Finite 3, text' = js ''Hello''\<rparr>,
            \<lparr>start = Finite 3, end' = Finite 10, text' = js ''World''\<rparr>]
   \<and> syncedLyrics (sample_record inexact 100) \<noteq> []
   \<and> parseSyncedLyrics (sample_record inexact 100) =
       Inr [\<lparr>start = Finite (2393944676924129 / 35184372088832), end' = Finite 100,
             text' = js ''x''\<rparr>]
   \<and> fl (1701 / 25) = Finite (4787889353848259 / 70368744177664)"
proof -
  have s: "stamp (js ''[00:01.50]Hello'') = Finite (3 / 2)"
    by (simp add: js_def stamp_def digitValue_def fl_eval)
  have n: "syncedLyrics (sample_record inexact 100) \<noteq> []"
    by (simp add: sample_record_def inexact_def js_def)
  show ?thesis
    using C3_recorded_lines [of "js ''[00:01.50]Hello''" "sample_record hello_world 10"]
      C3_recorded_lines [of "js ''[01:08.04]x''" "sample_record inexact 100"]
      parse_hello_world [of 10] parse_inexact [of 100] fl_68_04 s n
    by (simp add: sample_record_def hello_world_def js_def grammar_def isDigit_def
          isLineTerminator_def)
qed

section \<open>Order of the start times\<close>

text \<open>
  Claim C5, as stated: the start values of the emitted sequence are non-decreasing for
  all inputs. The two lines of the text below are recorded in the order of the text, the
  later time first.
\<close>

theorem C5_counterexample:
  "parseSyncedLyrics (sample_record out_of_order 10) =
     Inr [\<lparr>start = Finite 3, end' = Finite 1, text' = js ''b''\<rparr>,
          \<lparr>start = Finite 1, end' = Finite 10, text' = js ''a''\<rparr>]
   \<and> \<not> sorted_wrt jle (map start
         [\<lparr>start = Finite 3, end' = Finite 1, text' = js ''b''\<rparr>,
          \<lparr>start = Finite 1, end' = Finite 10, text' = js ''a''\<rparr>])"
  using parse_out_of_order [of 10] by simp

text \<open>
  Claim C5, amended. For every record accepted by the parse, the start values of the
  emitted sequence are the time stamps \<open>MM * 60 + SS.ff\<close>, evaluated in double precision,
  of the lines that match the grammar with a rest free of line terminators, in their order
  of appearance in the split text; they are non-decreasing exactly when those computed
  time stamps are. (The lines \<open>[00:68.04]\<close> and \<open>[01:08.04]\<close>, in this order, have
  decreasing computed time stamps.)
\<close>

theorem C5_starts_in_text_order:
  assumes "parseSyncedLyrics r = Inr ls"
  shows "map start ls = map stamp (filter accepted (split_lf (syncedLyrics r)))
       \<and> (sorted_wrt jle (map start ls)
            \<longleftrightarrow> sorted_wrt jle (map stamp (filter accepted (split_lf (syncedLyrics r)))))"
  using parse_starts [OF assms] by simp

theorem C5_starts_in_text_order_witness:
  "parseSyncedLyrics (sample_record hello_world 10) =
     Inr [\<lparr>start = Finite (3 / 2), end' = Finite 3, text' = js ''Hello''\<rparr>,
          \<lparr>start = Finite 3, end' = Finite 10, text' = js ''World''\<rparr>]
   \<and> map stamp (filter accepted (split_lf (syncedLyrics (sample_record hello_world 10))))
       = [Finite (3 / 2), Finite 3]
   \<and> sorted_wrt jle
        (map stamp (filter accepted (split_lf (syncedLyrics (sample_record hello_world 10)))))
   \<and> map stamp (filter accepted (split_lf (syncedLyrics (sample_record same_time_twice 100))))
       = [Finite (4787889353848259 / 70368744177664),
          Finite (2393944676924129 / 35184372088832)]
   \<and> \<not> sorted_wrt jle
        (map stamp (filter accepted (split_lf (syncedLyrics (sample_record same_time_twice 100)))))"
  using C5_starts_in_text_order [OF parse_hello_world [of 10]] parse_hello_world [of 10]
    C5_starts_in_text_order [OF parse_same_time_twice [of 100]]
  by simp

section \<open>The only error of the parser\<close>

text \<open>
  Claim C6. The parse fails with \<open>NoSyncedLyrics\<close> if and only if the synced text of the
  record is empty, and with no other error; for a non-empty text in which no line matches
  the regular expression it returns the empty sequence.
\<close>

theorem C6_no_synced_lyrics:
  "(parseSyncedLyrics r = Inl NoSyncedLyrics \<longleftrightarrow> syncedLyrics r = [])
   \<and> (parseSyncedLyrics r = Inl e \<longrightarrow> e = NoSyncedLyrics)
   \<and> (syncedLyrics r \<noteq> [] \<and> list_all (\<lambda>l. match_line l = None) (split_lf (syncedLyrics r))
        \<longrightarrow> parseSyncedLyrics r = Inr [])"
proof (intro conjI impI)
  show "parseSyncedLyrics r = Inl NoSyncedLyrics \<longleftrightarrow> syncedLyrics r = []"
    by (simp add: parse_eq)
next
  assume "parseSyncedLyrics r = Inl e"
  then show "e = NoSyncedLyrics"
    by (simp add: parse_eq split: if_splits)
next
  assume a: "syncedLyrics r \<noteq> [] \<and> list_all (\<lambda>l. match_line l = None) (split_lf (syncedLyrics r))"
  then have "filter accepted (split_lf (syncedLyrics r)) = []"
    by (auto simp: filter_empty_conv list_all_iff match_line_eq split: if_splits)
  then have "recorded_lines (syncedLyrics r) = []"
    by (simp add: recorded_lines_def)
  with a show "parseSyncedLyrics r = Inr []"
    by (simp add: parse_eq)
qed

theorem C6_no_synced_lyrics_witness:
  "syncedLyrics (sample_record no_stamps 10) \<noteq> []
   \<and> list_all (\<lambda>l. match_line l = None) (split_lf (syncedLyrics (sample_record no_stamps 10)))
   \<and> parseSyncedLyrics (sample_record no_stamps 10) = Inr []
   \<and> parseSyncedLyrics (sample_record [] 10) = Inl NoSyncedLyrics"
proof -
  have ne: "syncedLyrics (sample_record no_stamps 10) \<noteq> []"
    by (simp add: sample_record_def no_stamps_def js_def)
  have no: "list_all (\<lambda>l. match_line l = None)
              (split_lf (syncedLyrics (sample_record no_stamps 10)))"
    by (simp add: sample_record_def no_stamps_def js_def isDigit_def)
  have em: "syncedLyrics (sample_record [] 10) = []"
    by (simp add: sample_record_def)
  show ?thesis
    using C6_no_synced_lyrics [of "sample_record no_stamps 10" NoSyncedLyrics]
      C6_no_synced_lyrics [of "sample_record [] 10" NoSyncedLyrics] ne no em
    by simp
qed

section \<open>The text of a timed line\<close>

text \<open>
  Claim C8, as stated: for every matching line whose rest trims to the empty string the
  emitted text is the placeholder. The line below has the form \<open>[MM:SS.ff]<rest>\<close>, its
  rest is two spaces and a carriage return, which trims to the empty string, and nothing
  is emitted for it.
\<close>

theorem C8_counterexample:
  "filter grammar (split_lf interlude_cr) = [js ''[01:02.30]  '' @ [13]]
   \<and> list_all isTrimmed (drop 10 (js ''[01:02.30]  '' @ [13]))
   \<and> trim (drop 10 (js ''[01:02.30]  '' @ [13])) = []
   \<and> parseSyncedLyrics (sample_record interlude_cr 10) = Inr []"
  using parse_interlude_cr [of 10]
  by (simp add: interlude_cr_def js_def grammar_def isDigit_def trim_def isTrimmed_def
        isWhiteSpace_def isLineTerminator_def)

text \<open>
  Claim C8, amended. Every timed line emitted by the parse has a non-empty text. The
  emitted texts are, in order, those of the lines that match the grammar with a rest free
  of line terminators: the placeholder when the rest after the time stamp trims to the
  empty string, the trimmed rest otherwise (a matching line whose rest holds a line
  terminator emits nothing). Trimming removes the longest run of white space and line
  terminators at either end of a string and nothing else.
\<close>

theorem C8_text_nonempty:
  assumes "parseSyncedLyrics r = Inr ls"
  shows "(\<forall>x\<in>set ls. text' x \<noteq> [])
       \<and> map text' ls =
           map (\<lambda>l. if trim (drop 10 l) = [] then placeholder else trim (drop 10 l))
               (filter accepted (split_lf (syncedLyrics r)))
       \<and> (\<exists>pre suf. s = pre @ trim s @ suf
             \<and> list_all isTrimmed pre \<and> list_all isTrimmed suf
             \<and> (trim s \<noteq> [] \<longrightarrow> \<not> isTrimmed (hd (trim s)) \<and> \<not> isTrimmed (last (trim s))))"
proof (intro conjI)
  have t: "map text' ls = map shown_text (filter accepted (split_lf (syncedLyrics r)))"
    by (rule parse_texts [OF assms])
  have "\<forall>y\<in>set (map text' ls). y \<noteq> []"
    unfolding t by (auto simp: shown_text_nonempty)
  then show "\<forall>x\<in>set ls. text' x \<noteq> []"
    by simp
  have "shown_text = (\<lambda>l. if trim (drop 10 l) = [] then placeholder else trim (drop 10 l))"
    by (rule ext) (simp add: shown_text_def)
  with t show "map text' ls =
           map (\<lambda>l. if trim (drop 10 l) = [] then placeholder else trim (drop 10 l))
               (filter accepted (split_lf (syncedLyrics r)))"
    by simp
  show "\<exists>pre suf. s = pre @ trim s @ suf
             \<and> list_all isTrimmed pre \<and> list_all isTrimmed suf
             \<and> (trim s \<noteq> [] \<longrightarrow> \<not> isTrimmed (hd (trim s)) \<and> \<not> isTrimmed (last (trim s)))"
    by (rule trim_decomposition)
qed

theorem C8_text_nonempty_witness:
  "parseSyncedLyrics (sample_record interlude 10) =
     Inr [\<lparr>start = Finite (4383972762268467 / 70368744177664), end' = Finite 10,
           text' = placeholder\<rparr>]
   \<and> placeholder \<noteq> []
   \<and> filter accepted (split_lf (syncedLyrics (sample_record interlude 10)))
       = [js ''[01:02.30]   '']
   \<and> trim (drop 10 (js ''[01:02.30]   '')) = []
   \<and> parseSyncedLyrics (sample_record padded 10) =
       Inr [\<lparr>start = Finite 7, end' = Finite 10, text' = js ''Hi there''\<rparr>]
   \<and> filter accepted (split_lf (syncedLyrics (sample_record padded 10)))
       = [js ''[00:07.00]'' @ [9, 32] @ js ''Hi there'' @ [32, 160]]
   \<and> drop 10 (js ''[00:07.00]'' @ [9, 32] @ js ''Hi there'' @ [32, 160])
       = [9, 32] @ js ''Hi there'' @ [32, 160]
   \<and> trim ([9, 32] @ js ''Hi there'' @ [32, 160]) = js ''Hi there''"
proof -
  have f: "filter accepted (split_lf (syncedLyrics (sample_record interlude 10)))
             = [js ''[01:02.30]   '']"
    by (simp add: sample_record_def interlude_def string_defs)
  have t: "trim (drop 10 (js ''[01:02.30]   '')) = []"
    by (simp add: string_defs)
  have g: "filter accepted (split_lf (syncedLyrics (sample_record padded 10)))
             = [js ''[00:07.00]'' @ [9, 32] @ js ''Hi there'' @ [32, 160]]"
    by (simp add: sample_record_def padded_def string_defs)
  have u: "trim ([9, 32] @ js ''Hi there'' @ [32, 160]) = js ''Hi there''"
    by (simp add: string_defs)
  have d: "drop 10 (js ''[00:07.00]'' @ [9, 32] @ js ''Hi there'' @ [32, 160])
             = [9, 32] @ js ''Hi there'' @ [32, 160]"
    by (simp add: js_def)
  show ?thesis
    using C8_text_nonempty [OF parse_interlude [of 10], of "js ''   ''"]
      C8_text_nonempty [OF parse_padded [of 10], of "[9, 32] @ js ''Hi there'' @ [32, 160]"]
      parse_interlude [of 10] parse_padded [of 10] f t g u d
    by (simp add: placeholder_def)
qed

section \<open>Selection by duration\<close>

text \<open>
  Claim C2, as stated: for every provided target duration the record closest in duration
  is returned. A target duration of \<open>0\<close> is a provided number, and the first call below
  returns the first record, of duration 200, although the second, of duration 100, is
  closer. In the second call the two differences, \<open>2 ^ 53 + 1\<close> and \<open>2 ^ 53\<close>, are
  computed in double precision, where both are \<open>2 ^ 53\<close>: the first record is kept
  although the second is closer.
\<close>

theorem C2_counterexample:
  "getLyrics (serve [synced_200, synced_100]) song0 artist0 (Number (Finite 0)) False []
     = (Inr synced_200, [(song0, artist0)])
   \<and> \<bar>duration synced_100 - 0\<bar> < \<bar>duration synced_200 - 0\<bar>
   \<and> getLyrics (serve [synced_2_53, synced_2_53_less_1]) song0 artist0 (Number (Finite (- 1)))
         False []
     = (Inr synced_2_53, [(song0, artist0)])
   \<and> \<bar>duration synced_2_53_less_1 - (- 1)\<bar> < \<bar>duration synced_2_53 - (- 1)\<bar>"
  by (simp add: getLyrics_def querySongLyrics_def sample_defs closer_def jsub_def fl_eval)

text \<open>
  Claim C2, amended. For every non-empty filtered candidate list and every target duration
  that is a number other than zero and \<open>NaN\<close>, the selection returns the record that
  minimises the value of \<open>abs (duration - target)\<close> as computed in double precision, and
  among several records with the minimal computed value the first in input order: every
  record before it has a strictly greater computed difference, every record after it one
  at least as great.
\<close>

theorem C2_closest_first:
  assumes "ok (net song artist)" and "json (net song artist) = Some data0" and "data0 \<noteq> []"
    and "candidates data0 syncedOnly \<noteq> []" and "d \<noteq> NaN" and "d \<noteq> Finite 0"
  shows "\<exists>r pre post.
           getLyrics net song artist (Number d) syncedOnly rq = (Inr r, rq @ [(song, artist)])
           \<and> candidates data0 syncedOnly = pre @ r # post
           \<and> (\<forall>x\<in>set pre. jlt (jabs (jsub (Finite (duration r)) d))
                               (jabs (jsub (Finite (duration x)) d)))
           \<and> (\<forall>x\<in>set post. jle (jabs (jsub (Finite (duration r)) d))
                                (jabs (jsub (Finite (duration x)) d)))"
proof -
  from assms(4) obtain x xs where c: "candidates data0 syncedOnly = x # xs"
    by (cases "candidates data0 syncedOnly") auto
  have g: "getLyrics net song artist (Number d) syncedOnly rq =
             (Inr (foldl (closer d) x xs), rq @ [(song, artist)])"
    using getLyrics_number [of net song artist data0 d syncedOnly rq] assms c by simp
  show ?thesis
    using foldl_closer_first_min [OF assms(5), of x xs] unfolding g c difference_def by blast
qed

theorem C2_closest_first_witness:
  "ok (serve [synced_200, synced_260, synced_300] song0 artist0)
   \<and> json (serve [synced_200, synced_260, synced_300] song0 artist0)
       = Some [synced_200, synced_260, synced_300]
   \<and> candidates [synced_200, synced_260, synced_300] False \<noteq> []
   \<and> Finite 263 \<noteq> NaN \<and> Finite 263 \<noteq> Finite 0
   \<and> getLyrics (serve [synced_200, synced_260, synced_300]) song0 artist0
         (Number (Finite 263)) False []
       = (Inr synced_260, [(song0, artist0)])"
proof -
  have h: "ok (serve [synced_200, synced_260, synced_300] song0 artist0)"
    "json (serve [synced_200, synced_260, synced_300] song0 artist0)
       = Some [synced_200, synced_260, synced_300]"
    "[synced_200, synced_260, synced_300] \<noteq> []"
    "candidates [synced_200, synced_260, synced_300] False \<noteq> []"
    "Finite 263 \<noteq> NaN" "Finite 263 \<noteq> Finite 0"
    by (simp_all add: serve_def candidates_def)
  have g: "getLyrics (serve [synced_200, synced_260, synced_300]) song0 artist0
             (Number (Finite 263)) False [] = (Inr synced_260, [(song0, artist0)])"
    by (simp add: getLyrics_def querySongLyrics_def sample_defs closer_def jsub_def fl_eval)
  show ?thesis
    using C2_closest_first [where net = "serve [synced_200, synced_260, synced_300]"
        and song = song0 and artist = artist0
        and ?data0.0 = "[synced_200, synced_260, synced_300]"
        and syncedOnly = False and d = "Finite 263" and rq = "[]"] h g
    by simp
qed

section \<open>An empty filtered list\<close>

text \<open>
  Claim C4 says that the selection fails with \<open>NotFound\<close> whenever the \<open>syncedOnly\<close>
  filter leaves no record, with or without a target duration. Without a duration it does;
  with the duration 263 the \<open>reduce\<close> call on the empty list raises \<open>TypeError\<close> before
  the test that raises \<open>NotFound\<close> is reached, in \<open>getLyrics\<close> and so in
  \<open>getLyricLines\<close>.
\<close>

theorem C4_empty_filter:
  "candidates [unsynced_200] True = []
   \<and> getLyrics (serve [unsynced_200]) song0 artist0 Undefined True []
       = (Inl NotFound, [(song0, artist0)])
   \<and> getLyrics (serve [unsynced_200]) song0 artist0 (Number (Finite 263)) True []
       = (Inl TypeError, [(song0, artist0)])
   \<and> getLyricLines (serve [unsynced_200]) song0 artist0 (Number (Finite 263)) []
       = (Inl TypeError, [(song0, artist0)])"
  by (simp add: getLyricLines_def getLyrics_def querySongLyrics_def sample_defs)

section \<open>The type check of the duration\<close>

text \<open>
  Claim C7, as stated: every non-numeric duration fails with \<open>InvalidArgument\<close> before any
  search. The empty string is not a number, and the call below issues the search and
  returns a record.
\<close>

theorem C7_counterexample:
  "typeof (String []) \<noteq> TNumber
   \<and> getLyrics (serve [synced_200]) song0 artist0 (String []) False []
       = (Inr synced_200, [(song0, artist0)])"
  by (simp add: getLyrics_def querySongLyrics_def sample_defs)

text \<open>
  Claim C7, amended. For every call in which the supplied duration is truthy and not a
  number (a non-empty string, \<open>true\<close>, an object), the call fails with
  \<open>InvalidArgument\<close> and issues no search: the requests are unchanged. For every falsy
  value, a number or not (the empty string, \<open>false\<close>, \<open>null\<close>), the call behaves as the
  call with no duration.
\<close>

theorem C7_invalid_argument:
  "(truthy dur \<and> typeof dur \<noteq> TNumber \<longrightarrow>
      getLyrics net song artist dur syncedOnly rq = (Inl InvalidArgument, rq))
   \<and> (\<not> truthy dur \<longrightarrow>
        getLyrics net song artist dur syncedOnly rq
          = getLyrics net song artist Undefined syncedOnly rq)"
proof (intro conjI impI)
  assume "truthy dur \<and> typeof dur \<noteq> TNumber"
  then show "getLyrics net song artist dur syncedOnly rq = (Inl InvalidArgument, rq)"
    by (simp add: getLyrics_def)
next
  assume "\<not> truthy dur"
  then show "getLyrics net song artist dur syncedOnly rq
               = getLyrics net song artist Undefined syncedOnly rq"
    by (rule getLyrics_falsy_absent)
qed

theorem C7_invalid_argument_witness:
  "truthy (String (js ''263'')) \<and> typeof (String (js ''263'')) \<noteq> TNumber
   \<and> getLyrics (serve [synced_200]) song0 artist0 (String (js ''263'')) False []
       = (Inl InvalidArgument, [])
   \<and> \<not> truthy (Boolean False) \<and> typeof (Boolean False) \<noteq> TNumber
   \<and> getLyrics (serve [synced_300, synced_200]) song0 artist0 (Boolean False) False []
       = getLyrics (serve [synced_300, synced_200]) song0 artist0 Undefined False []
   \<and> getLyrics (serve [synced_300, synced_200]) song0 artist0 Undefined False []
       = (Inr synced_300, [(song0, artist0)])"
proof -
  have h: "truthy (String (js ''263''))" "typeof (String (js ''263'')) \<noteq> TNumber"
    "\<not> truthy (Boolean False)" "typeof (Boolean False) \<noteq> TNumber"
    by (simp_all add: js_def)
  have u: "getLyrics (serve [synced_300, synced_200]) song0 artist0 Undefined False []
             = (Inr synced_300, [(song0, artist0)])"
    by (simp add: getLyrics_def querySongLyrics_def sample_defs)
  note a = C7_invalid_argument [where dur = "String (js ''263'')" and net = "serve [synced_200]"
      and song = song0 and artist = artist0 and syncedOnly = False and rq = "[]"]
  note b = C7_invalid_argument [where dur = "Boolean False"
      and net = "serve [synced_300, synced_200]"
      and song = song0 and artist = artist0 and syncedOnly = False and rq = "[]"]
  from a [THEN conjunct1] h
  have i: "getLyrics (serve [synced_200]) song0 artist0 (String (js ''263'')) False []
             = (Inl InvalidArgument, [])"
    by simp
  from b [THEN conjunct2] h
  have f: "getLyrics (serve [synced_300, synced_200]) song0 artist0 (Boolean False) False []
             = getLyrics (serve [synced_300, synced_200]) song0 artist0 Undefined False []"
    by simp
  from h i f u show ?thesis
    by (intro conjI)
qed

section \<open>The selected record is a candidate\<close>

text \<open>
  Claim C9. For every non-empty filtered candidate list and every duration that passes the
  type check (absent, or a number), the selection returns a record that is an element of
  the filtered list; with \<open>syncedOnly\<close> set its synced text is not empty; and when no
  duration is provided it is the first record of the filtered list.
\<close>

theorem C9_returns_candidate:
  assumes "ok (net song artist)" and "json (net song artist) = Some data0" and "data0 \<noteq> []"
    and "candidates data0 syncedOnly \<noteq> []"
    and "\<not> (truthy dur \<and> typeof dur \<noteq> TNumber)"
  shows "\<exists>r. getLyrics net song artist dur syncedOnly rq = (Inr r, rq @ [(song, artist)])
           \<and> r \<in> set (candidates data0 syncedOnly)
           \<and> (syncedOnly \<longrightarrow> syncedLyrics r \<noteq> [])
           \<and> (dur = Undefined \<longrightarrow> r = hd (candidates data0 syncedOnly))"
proof -
  from assms(4) obtain x xs where c: "candidates data0 syncedOnly = x # xs"
    by (cases "candidates data0 syncedOnly") auto
  have syn: "syncedOnly \<longrightarrow> syncedLyrics r \<noteq> []" if "r \<in> set (candidates data0 syncedOnly)" for r
    using that by (auto simp: candidates_def hasSynced_def split: if_splits)
  show ?thesis
  proof (cases "truthy dur")
    case True
    with assms(5) obtain d where d: "dur = Number d" "d \<noteq> NaN" "d \<noteq> Finite 0"
      using truthy_number by blast
    have g: "getLyrics net song artist dur syncedOnly rq =
               (Inr (foldl (closer d) x xs), rq @ [(song, artist)])"
      using getLyrics_number [of net song artist data0 d syncedOnly rq] assms d c by simp
    obtain pre post where "x # xs = pre @ foldl (closer d) x xs # post"
      using foldl_closer_first_min [OF d(2), of x xs] by blast
    then have "foldl (closer d) x xs \<in> set (candidates data0 syncedOnly)"
      unfolding c by (metis in_set_conv_decomp)
    then show ?thesis
      using g syn d(1) by auto
  next
    case False
    have g: "getLyrics net song artist dur syncedOnly rq = (Inr x, rq @ [(song, artist)])"
      using getLyrics_falsy [of net song artist data0 dur syncedOnly rq] assms False c by simp
    have "x \<in> set (candidates data0 syncedOnly)"
      unfolding c by simp
    then show ?thesis
      using g syn c by auto
  qed
qed

theorem C9_returns_candidate_witness:
  "ok (serve [unsynced_200, synced_260, synced_300] song0 artist0)
   \<and> json (serve [unsynced_200, synced_260, synced_300] song0 artist0)
       = Some [unsynced_200, synced_260, synced_300]
   \<and> candidates [unsynced_200, synced_260, synced_300] True = [synced_260, synced_300]
   \<and> \<not> (truthy Undefined \<and> typeof Undefined \<noteq> TNumber)
   \<and> getLyrics (serve [unsynced_200, synced_260, synced_300]) song0 artist0 Undefined True []
       = (Inr synced_260, [(song0, artist0)])
   \<and> syncedLyrics synced_260 \<noteq> []"
proof -
  have h: "ok (serve [unsynced_200, synced_260, synced_300] song0 artist0)"
    "json (serve [unsynced_200, synced_260, synced_300] song0 artist0)
       = Some [unsynced_200, synced_260, synced_300]"
    "[unsynced_200, synced_260, synced_300] \<noteq> []"
    "candidates [unsynced_200, synced_260, synced_300] True \<noteq> []"
    "\<not> (truthy Undefined \<and> typeof Undefined \<noteq> TNumber)"
    by (simp_all add: sample_defs js_def)
  have c: "candidates [unsynced_200, synced_260, synced_300] True = [synced_260, synced_300]"
    by (simp add: sample_defs js_def)
  have s: "syncedLyrics synced_260 \<noteq> []"
    by (simp add: sample_defs js_def)
  show ?thesis
    using C9_returns_candidate [where net = "serve [unsynced_200, synced_260, synced_300]"
        and song = song0 and artist = artist0
        and ?data0.0 = "[unsynced_200, synced_260, synced_300]"
        and syncedOnly = True and dur = Undefined and rq = "[]"] h c s
    by simp
qed

section \<open>A duration of zero\<close>

text \<open>
  Claim C10. A call with the duration \<open>0\<close> behaves exactly as a call with no duration:
  the type check is passed over, and for a non-empty filtered list the first record is
  returned, whatever the durations of the others.
\<close>

theorem C10_zero_is_absent:
  "getLyrics net song artist (Number (Finite 0)) syncedOnly rq
     = getLyrics net song artist Undefined syncedOnly rq
   \<and> (ok (net song artist) \<and> json (net song artist) = Some data0 \<and> data0 \<noteq> []
        \<and> candidates data0 syncedOnly \<noteq> []
      \<longrightarrow> getLyrics net song artist (Number (Finite 0)) syncedOnly rq
            = (Inr (hd (candidates data0 syncedOnly)), rq @ [(song, artist)]))"
proof -
  have "getLyrics net song artist (Number (Finite 0)) syncedOnly rq
          = getLyrics net song artist Undefined syncedOnly rq"
    by (simp add: getLyrics_def split: prod.splits sum.splits)
  moreover have "getLyrics net song artist (Number (Finite 0)) syncedOnly rq
            = (Inr (hd (candidates data0 syncedOnly)), rq @ [(song, artist)])"
    if "ok (net song artist)" "json (net song artist) = Some data0" "data0 \<noteq> []"
       "candidates data0 syncedOnly \<noteq> []"
    using getLyrics_falsy [of net song artist data0 "Number (Finite 0)" syncedOnly rq] that
    by (cases "candidates data0 syncedOnly") auto
  ultimately show ?thesis by blast
qed

theorem C10_zero_is_absent_witness:
  "ok (serve [synced_300, synced_100] song0 artist0)
   \<and> json (serve [synced_300, synced_100] song0 artist0) = Some [synced_300, synced_100]
   \<and> candidates [synced_300, synced_100] False \<noteq> []
   \<and> getLyrics (serve [synced_300, synced_100]) song0 artist0 (Number (Finite 0)) False []
       = (Inr synced_300, [(song0, artist0)])
   \<and> getLyrics (serve [synced_300, synced_100]) song0 artist0 Undefined False []
       = (Inr synced_300, [(song0, artist0)])
   \<and> \<bar>duration synced_100 - 0\<bar> < \<bar>duration synced_300 - 0\<bar>"
proof -
  have h: "ok (serve [synced_300, synced_100] song0 artist0)"
    "json (serve [synced_300, synced_100] song0 artist0) = Some [synced_300, synced_100]"
    "candidates [synced_300, synced_100] False \<noteq> []"
    by (simp_all add: serve_def candidates_def)
  have d: "\<bar>duration synced_100 - 0\<bar> < \<bar>duration synced_300 - 0\<bar>"
    by (simp add: sample_defs)
  note t = C10_zero_is_absent [where net = "serve [synced_300, synced_100]"
        and song = song0 and artist = artist0 and syncedOnly = False and rq = "[]"
        and ?data0.0 = "[synced_300, synced_100]"]
  from t have e: "getLyrics (serve [synced_300, synced_100]) song0 artist0 (Number (Finite 0))
                    False []
             = getLyrics (serve [synced_300, synced_100]) song0 artist0 Undefined False []"
    by (rule conjunct1)
  from t [THEN conjunct2] h
  have z: "getLyrics (serve [synced_300, synced_100]) song0 artist0 (Number (Finite 0)) False []
             = (Inr synced_300, [(song0, artist0)])"
    by (simp add: candidates_def)
  from e z have u: "getLyrics (serve [synced_300, synced_100]) song0 artist0 Undefined False []
             = (Inr synced_300, [(song0, artist0)])"
    by (rule subst)
  show ?thesis
    using h d z u by simp
qed

end
